theory Spec2Isabelle
  imports Main "HOL-Library.Sublist"
begin

section \<open>Errors and the world the library talks to\<close>

text \<open>
  A Go \<open>error\<close> value is modelled by its message. Functions that return
  \<open>(T, error)\<close> return \<open>error + T\<close> here, \<open>Inl\<close> being the non-nil error.
\<close>

datatype error = Error string

text \<open>
  The collaborators of the library (credential storage, token retriever, the
  authentication manager seen as an interface, the HTTP client) are Go interfaces
  with arbitrary implementations. Each is modelled as a record of transition
  functions over an external state \<open>'s\<close>. Every call through such an interface
  is also appended to a trace, so that the number of calls can be stated.
\<close>

record AuthDetails =
  RefreshToken :: string
  AccessToken :: string

record Request =
  Method :: string
  URL :: string
  Header :: "(string \<times> string) list"
  Body :: string

datatype event =
    Loaded
  | Saved AuthDetails
  | Retrieved string
  | AccessTokenCalled
  | RenewCalled
  | Done Request

record 's world =
  ext :: 's
  trace :: "event list"

section \<open>contacts/auth.go\<close>

text \<open>
  \<open>AuthStorage.Load\<close> returns a pointer to a fresh record or an error;
  \<open>AuthStorage.Save\<close> returns an error or nil. The record is passed by value:
  the storage keeps no alias of the record it hands out (as \<open>FileAuthStorage\<close>
  does, which decodes a new record on every load).
\<close>

record 's AuthStorage =
  Load :: "'s \<Rightarrow> (error + AuthDetails) \<times> 's"
  Save :: "AuthDetails \<Rightarrow> 's \<Rightarrow> error option \<times> 's"

record 's AccessTokenRetriever =
  Retrieve :: "string \<Rightarrow> 's \<Rightarrow> (error + string) \<times> 's"

record 's StandardAuthManager =
  AccessTokenRetriever :: "'s AccessTokenRetriever"
  AuthStorage :: "'s AuthStorage"

definition callLoad :: "'s StandardAuthManager \<Rightarrow> 's world \<Rightarrow> (error + AuthDetails) \<times> 's world" where
  "callLoad m w =
     (case Load (AuthStorage m) (ext w) of
        (r, s) \<Rightarrow> (r, \<lparr>ext = s, trace = trace w @ [Loaded]\<rparr>))"

definition callSave :: "'s StandardAuthManager \<Rightarrow> AuthDetails \<Rightarrow> 's world \<Rightarrow> error option \<times> 's world" where
  "callSave m authDetails w =
     (case Save (AuthStorage m) authDetails (ext w) of
        (r, s) \<Rightarrow> (r, \<lparr>ext = s, trace = trace w @ [Saved authDetails]\<rparr>))"

definition callRetrieve :: "'s StandardAuthManager \<Rightarrow> string \<Rightarrow> 's world \<Rightarrow> (error + string) \<times> 's world" where
  "callRetrieve m refreshToken w =
     (case Retrieve (AccessTokenRetriever m) refreshToken (ext w) of
        (r, s) \<Rightarrow> (r, \<lparr>ext = s, trace = trace w @ [Retrieved refreshToken]\<rparr>))"

text \<open>\<open>func (m *StandardAuthManager) exchangeRefreshTokenForAccessTokenAndStore\<close>\<close>

definition exchangeRefreshTokenForAccessTokenAndStore ::
  "'s StandardAuthManager \<Rightarrow> AuthDetails \<Rightarrow> 's world \<Rightarrow> (error + string) \<times> 's world" where
  "exchangeRefreshTokenForAccessTokenAndStore m authDetails w =
     (if RefreshToken authDetails = [] then (Inl (Error ''no refresh token provided''), w)
      else
        (case callRetrieve m (RefreshToken authDetails) w of
           (Inl err, w1) \<Rightarrow> (Inl err, w1)
         | (Inr accessToken, w1) \<Rightarrow>
             (case callSave m (authDetails\<lparr>AccessToken := accessToken\<rparr>) w1 of
                (_, w2) \<Rightarrow> (Inr accessToken, w2))))"

text \<open>\<open>func (m *StandardAuthManager) AccessToken\<close>\<close>

definition StandardAuthManager_AccessToken ::
  "'s StandardAuthManager \<Rightarrow> 's world \<Rightarrow> (error + string) \<times> 's world" where
  "StandardAuthManager_AccessToken m w =
     (case callLoad m w of
        (Inl err, w1) \<Rightarrow> (Inl err, w1)
      | (Inr authDetails, w1) \<Rightarrow>
          if AccessToken authDetails \<noteq> [] then (Inr (AccessToken authDetails), w1)
          else exchangeRefreshTokenForAccessTokenAndStore m authDetails w1)"

text \<open>\<open>func (m *StandardAuthManager) Renew\<close>\<close>

definition StandardAuthManager_Renew ::
  "'s StandardAuthManager \<Rightarrow> 's world \<Rightarrow> (error + string) \<times> 's world" where
  "StandardAuthManager_Renew m w =
     (case callLoad m w of
        (Inl err, w1) \<Rightarrow> (Inl err, w1)
      | (Inr authDetails, w1) \<Rightarrow>
          exchangeRefreshTokenForAccessTokenAndStore m (authDetails\<lparr>AccessToken := []\<rparr>) w1)"

text \<open>
  An in-memory storage and a retriever that always answers with the same token,
  used to run the manager on concrete inputs. The external state is the stored
  record; \<open>failingStorage\<close> refuses every write.
\<close>

definition memStorage :: "AuthDetails AuthStorage" where
  "memStorage = \<lparr>Load = (\<lambda>s. (Inr s, s)), Save = (\<lambda>d s. (None, d))\<rparr>"

definition failingStorage :: "AuthDetails AuthStorage" where
  "failingStorage = \<lparr>Load = (\<lambda>s. (Inr s, s)), Save = (\<lambda>d s. (Some (Error ''read-only''), s))\<rparr>"

definition constRetriever :: "string \<Rightarrow> AuthDetails AccessTokenRetriever" where
  "constRetriever tok = \<lparr>Retrieve = (\<lambda>r s. (Inr tok, s))\<rparr>"

definition memManager :: "AuthDetails StandardAuthManager" where
  "memManager = \<lparr>AccessTokenRetriever = constRetriever ''fresh'', AuthStorage = memStorage\<rparr>"

definition readOnlyManager :: "AuthDetails StandardAuthManager" where
  "readOnlyManager = \<lparr>AccessTokenRetriever = constRetriever ''fresh'', AuthStorage = failingStorage\<rparr>"

definition startWorld :: "'s \<Rightarrow> 's world" where
  "startWorld s = \<lparr>ext = s, trace = []\<rparr>"


subsection \<open>Properties of the authentication manager\<close>

lemma callLoad_eq:
  "Load (AuthStorage m) (ext w) = (r, s1) \<Longrightarrow>
   callLoad m w = (r, \<lparr>ext = s1, trace = trace w @ [Loaded]\<rparr>)"
  by (simp add: callLoad_def)

lemma callRetrieve_eq:
  "Retrieve (AccessTokenRetriever m) rt (ext w) = (r, s2) \<Longrightarrow>
   callRetrieve m rt w = (r, \<lparr>ext = s2, trace = trace w @ [Retrieved rt]\<rparr>)"
  by (simp add: callRetrieve_def)

lemma callSave_eq:
  "callSave m d w =
     (fst (Save (AuthStorage m) d (ext w)),
      \<lparr>ext = snd (Save (AuthStorage m) d (ext w)), trace = trace w @ [Saved d]\<rparr>)"
  by (simp add: callSave_def split: prod.splits)

lemma exchange_missing:
  "RefreshToken d = [] \<Longrightarrow>
   exchangeRefreshTokenForAccessTokenAndStore m d w = (Inl (Error ''no refresh token provided''), w)"
  by (simp add: exchangeRefreshTokenForAccessTokenAndStore_def)

lemma exchange_success:
  assumes "RefreshToken d \<noteq> []"
    and "Retrieve (AccessTokenRetriever m) (RefreshToken d) (ext w) = (Inr tok, s2)"
  shows "exchangeRefreshTokenForAccessTokenAndStore m d w =
           (Inr tok,
            \<lparr>ext = snd (Save (AuthStorage m) (d\<lparr>AccessToken := tok\<rparr>) s2),
             trace = trace w @ [Retrieved (RefreshToken d), Saved (d\<lparr>AccessToken := tok\<rparr>)]\<rparr>)"
  using assms
  by (simp add: exchangeRefreshTokenForAccessTokenAndStore_def callRetrieve_eq callSave_eq)

lemma exchange_failure:
  assumes "RefreshToken d \<noteq> []"
    and "Retrieve (AccessTokenRetriever m) (RefreshToken d) (ext w) = (Inl err, s2)"
  shows "exchangeRefreshTokenForAccessTokenAndStore m d w =
           (Inl err, \<lparr>ext = s2, trace = trace w @ [Retrieved (RefreshToken d)]\<rparr>)"
  using assms
  by (simp add: exchangeRefreshTokenForAccessTokenAndStore_def callRetrieve_eq)

text \<open>
  C5. When the loaded record holds an access token, \<open>AccessToken\<close> returns it and the
  only call made is the load: the retriever is not invoked and nothing is checked or
  saved. When the access token is empty, the refresh token is not, and the retriever
  answers with a token, the calls made are exactly one load, one retrieve and one save
  of the record carrying the new token, and that token is returned.
\<close>

theorem AccessToken_caching:
  assumes "Load (AuthStorage m) (ext w) = (Inr d, s1)"
  shows "(AccessToken d \<noteq> [] \<longrightarrow>
            StandardAuthManager_AccessToken m w =
              (Inr (AccessToken d), \<lparr>ext = s1, trace = trace w @ [Loaded]\<rparr>))
       \<and> (AccessToken d = [] \<and> RefreshToken d \<noteq> [] \<and>
            Retrieve (AccessTokenRetriever m) (RefreshToken d) s1 = (Inr tok, s2) \<longrightarrow>
            StandardAuthManager_AccessToken m w =
              (Inr tok,
               \<lparr>ext = snd (Save (AuthStorage m) (d\<lparr>AccessToken := tok\<rparr>) s2),
                trace = trace w @ [Loaded, Retrieved (RefreshToken d),
                                   Saved (d\<lparr>AccessToken := tok\<rparr>)]\<rparr>))"
  using assms
  by (simp add: StandardAuthManager_AccessToken_def callLoad_eq exchange_success)

theorem AccessToken_caching_witness:
  "StandardAuthManager_AccessToken memManager
       (startWorld \<lparr>RefreshToken = ''r'', AccessToken = ''cached''\<rparr>)
     = (Inr ''cached'',
        \<lparr>ext = \<lparr>RefreshToken = ''r'', AccessToken = ''cached''\<rparr>, trace = [Loaded]\<rparr>)
   \<and> StandardAuthManager_AccessToken memManager
       (startWorld \<lparr>RefreshToken = ''r'', AccessToken = []\<rparr>)
     = (Inr ''fresh'',
        \<lparr>ext = \<lparr>RefreshToken = ''r'', AccessToken = ''fresh''\<rparr>,
         trace = [Loaded, Retrieved ''r'', Saved \<lparr>RefreshToken = ''r'', AccessToken = ''fresh''\<rparr>]\<rparr>)"
  using AccessToken_caching [of memManager
          "startWorld \<lparr>RefreshToken = ''r'', AccessToken = ''cached''\<rparr>"
          "\<lparr>RefreshToken = ''r'', AccessToken = ''cached''\<rparr>"
          "\<lparr>RefreshToken = ''r'', AccessToken = ''cached''\<rparr>"]
        AccessToken_caching [of memManager
          "startWorld \<lparr>RefreshToken = ''r'', AccessToken = []\<rparr>"
          "\<lparr>RefreshToken = ''r'', AccessToken = []\<rparr>"
          "\<lparr>RefreshToken = ''r'', AccessToken = []\<rparr>"
          "''fresh''" "\<lparr>RefreshToken = ''r'', AccessToken = []\<rparr>"]
  by (simp add: memManager_def memStorage_def constRetriever_def startWorld_def)

text \<open>
  C6. When the loaded record has an empty refresh token, \<open>Renew\<close> fails with the
  error "no refresh token provided", and so does \<open>AccessToken\<close> when the access token
  is empty as well; in both cases the only call made is the load, so the retriever is
  never invoked.
\<close>

theorem missing_refresh_token:
  assumes "Load (AuthStorage m) (ext w) = (Inr d, s1)" and "RefreshToken d = []"
  shows "(AccessToken d = [] \<longrightarrow>
            StandardAuthManager_AccessToken m w =
              (Inl (Error ''no refresh token provided''),
               \<lparr>ext = s1, trace = trace w @ [Loaded]\<rparr>))
       \<and> StandardAuthManager_Renew m w =
              (Inl (Error ''no refresh token provided''),
               \<lparr>ext = s1, trace = trace w @ [Loaded]\<rparr>)"
  using assms
  by (simp add: StandardAuthManager_AccessToken_def StandardAuthManager_Renew_def
      callLoad_eq exchange_missing)

theorem missing_refresh_token_witness:
  "StandardAuthManager_AccessToken memManager
       (startWorld \<lparr>RefreshToken = [], AccessToken = []\<rparr>)
     = (Inl (Error ''no refresh token provided''),
        \<lparr>ext = \<lparr>RefreshToken = [], AccessToken = []\<rparr>, trace = [Loaded]\<rparr>)
   \<and> StandardAuthManager_Renew memManager
       (startWorld \<lparr>RefreshToken = [], AccessToken = ''stale''\<rparr>)
     = (Inl (Error ''no refresh token provided''),
        \<lparr>ext = \<lparr>RefreshToken = [], AccessToken = ''stale''\<rparr>, trace = [Loaded]\<rparr>)"
  using missing_refresh_token [of memManager
          "startWorld \<lparr>RefreshToken = [], AccessToken = []\<rparr>"
          "\<lparr>RefreshToken = [], AccessToken = []\<rparr>"
          "\<lparr>RefreshToken = [], AccessToken = []\<rparr>"]
        missing_refresh_token [of memManager
          "startWorld \<lparr>RefreshToken = [], AccessToken = ''stale''\<rparr>"
          "\<lparr>RefreshToken = [], AccessToken = ''stale''\<rparr>"
          "\<lparr>RefreshToken = [], AccessToken = ''stale''\<rparr>"]
  by (simp add: memManager_def memStorage_def constRetriever_def startWorld_def)

text \<open>
  C7. Once the retriever has answered with a token, \<open>AccessToken\<close> (on a record without
  a cached token) and \<open>Renew\<close> return that token and no error, whatever \<open>Save\<close> answers:
  the outcome \<open>r\<close> of the save is arbitrary below and does not reach the caller.
\<close>

theorem save_error_swallowed:
  assumes "Load (AuthStorage m) (ext w) = (Inr d, s1)"
    and "RefreshToken d \<noteq> []"
    and "Retrieve (AccessTokenRetriever m) (RefreshToken d) s1 = (Inr tok, s2)"
    and "Save (AuthStorage m) (d\<lparr>AccessToken := tok\<rparr>) s2 = (r, s3)"
  shows "(AccessToken d = [] \<longrightarrow> fst (StandardAuthManager_AccessToken m w) = Inr tok)
       \<and> fst (StandardAuthManager_Renew m w) = Inr tok
       \<and> ext (snd (StandardAuthManager_Renew m w)) = s3"
  using assms
  by (simp add: StandardAuthManager_AccessToken_def StandardAuthManager_Renew_def
      callLoad_eq exchange_success)

theorem save_error_swallowed_witness:
  "Save (AuthStorage readOnlyManager) \<lparr>RefreshToken = ''r'', AccessToken = ''fresh''\<rparr>
       \<lparr>RefreshToken = ''r'', AccessToken = []\<rparr>
     = (Some (Error ''read-only''), \<lparr>RefreshToken = ''r'', AccessToken = []\<rparr>)
   \<and> fst (StandardAuthManager_AccessToken readOnlyManager
            (startWorld \<lparr>RefreshToken = ''r'', AccessToken = []\<rparr>)) = Inr ''fresh''
   \<and> fst (StandardAuthManager_Renew readOnlyManager
            (startWorld \<lparr>RefreshToken = ''r'', AccessToken = []\<rparr>)) = Inr ''fresh''"
  using save_error_swallowed [of readOnlyManager
          "startWorld \<lparr>RefreshToken = ''r'', AccessToken = []\<rparr>"
          "\<lparr>RefreshToken = ''r'', AccessToken = []\<rparr>"
          "\<lparr>RefreshToken = ''r'', AccessToken = []\<rparr>"
          "''fresh''" "\<lparr>RefreshToken = ''r'', AccessToken = []\<rparr>"
          "Some (Error ''read-only'')" "\<lparr>RefreshToken = ''r'', AccessToken = []\<rparr>"]
  by (simp add: readOnlyManager_def failingStorage_def constRetriever_def startWorld_def)

text \<open>
  C9. Whatever the collaborators do, every record that \<open>AccessToken\<close> or \<open>Renew\<close>
  passes to \<open>Save\<close> is the loaded record with only its access token replaced: its
  refresh token is the one that was loaded.
\<close>

theorem refresh_token_unchanged:
  assumes "Load (AuthStorage m) (ext w) = (Inr d, s1)"
  shows "(\<exists>evs. trace (snd (StandardAuthManager_AccessToken m w)) = trace w @ evs \<and>
            (\<forall>d'. Saved d' \<in> set evs \<longrightarrow>
               RefreshToken d' = RefreshToken d \<and> d' = d\<lparr>AccessToken := AccessToken d'\<rparr>))
       \<and> (\<exists>evs. trace (snd (StandardAuthManager_Renew m w)) = trace w @ evs \<and>
            (\<forall>d'. Saved d' \<in> set evs \<longrightarrow>
               RefreshToken d' = RefreshToken d \<and> d' = d\<lparr>AccessToken := AccessToken d'\<rparr>))"
proof -
  have ex: "\<exists>evs. trace (snd (exchangeRefreshTokenForAccessTokenAndStore m x v)) = trace v @ evs \<and>
            (\<forall>d'. Saved d' \<in> set evs \<longrightarrow>
               RefreshToken d' = RefreshToken x \<and> d' = x\<lparr>AccessToken := AccessToken d'\<rparr>)"
    for x v
    by (auto simp add: exchangeRefreshTokenForAccessTokenAndStore_def callRetrieve_def
        callSave_def split: prod.splits sum.splits)
  have a: "\<exists>evs. trace (snd (StandardAuthManager_AccessToken m w)) = trace w @ evs \<and>
            (\<forall>d'. Saved d' \<in> set evs \<longrightarrow>
               RefreshToken d' = RefreshToken d \<and> d' = d\<lparr>AccessToken := AccessToken d'\<rparr>)"
  proof (cases "AccessToken d = []")
    case True
    from ex [of d "\<lparr>ext = s1, trace = trace w @ [Loaded]\<rparr>"] obtain evs where
      "trace (snd (exchangeRefreshTokenForAccessTokenAndStore m d
          \<lparr>ext = s1, trace = trace w @ [Loaded]\<rparr>)) = (trace w @ [Loaded]) @ evs"
      and "\<forall>d'. Saved d' \<in> set evs \<longrightarrow>
             RefreshToken d' = RefreshToken d \<and> d' = d\<lparr>AccessToken := AccessToken d'\<rparr>"
      by auto
    with True assms show ?thesis
      by (intro exI [of _ "Loaded # evs"])
        (simp add: StandardAuthManager_AccessToken_def callLoad_eq)
  next
    case False
    with assms show ?thesis
      by (intro exI [of _ "[Loaded]"])
        (simp add: StandardAuthManager_AccessToken_def callLoad_eq)
  qed
  have b: "\<exists>evs. trace (snd (StandardAuthManager_Renew m w)) = trace w @ evs \<and>
            (\<forall>d'. Saved d' \<in> set evs \<longrightarrow>
               RefreshToken d' = RefreshToken d \<and> d' = d\<lparr>AccessToken := AccessToken d'\<rparr>)"
  proof -
    from ex [of "d\<lparr>AccessToken := []\<rparr>" "\<lparr>ext = s1, trace = trace w @ [Loaded]\<rparr>"]
    obtain evs where
      "trace (snd (exchangeRefreshTokenForAccessTokenAndStore m (d\<lparr>AccessToken := []\<rparr>)
          \<lparr>ext = s1, trace = trace w @ [Loaded]\<rparr>)) = (trace w @ [Loaded]) @ evs"
      and "\<forall>d'. Saved d' \<in> set evs \<longrightarrow>
             RefreshToken d' = RefreshToken d \<and> d' = d\<lparr>AccessToken := AccessToken d'\<rparr>"
      by auto
    with assms show ?thesis
      by (intro exI [of _ "Loaded # evs"])
        (simp add: StandardAuthManager_Renew_def callLoad_eq)
  qed
  from a b show ?thesis by blast
qed

theorem refresh_token_unchanged_witness:
  "trace (snd (StandardAuthManager_Renew memManager
       (startWorld \<lparr>RefreshToken = ''r'', AccessToken = ''stale''\<rparr>)))
     = [Loaded, Retrieved ''r'', Saved \<lparr>RefreshToken = ''r'', AccessToken = ''fresh''\<rparr>]
   \<and> (\<exists>evs. trace (snd (StandardAuthManager_Renew memManager
                (startWorld \<lparr>RefreshToken = ''r'', AccessToken = ''stale''\<rparr>))) = [] @ evs \<and>
          (\<forall>d'. Saved d' \<in> set evs \<longrightarrow> RefreshToken d' = ''r''))"
  using refresh_token_unchanged [of memManager
          "startWorld \<lparr>RefreshToken = ''r'', AccessToken = ''stale''\<rparr>"
          "\<lparr>RefreshToken = ''r'', AccessToken = ''stale''\<rparr>"
          "\<lparr>RefreshToken = ''r'', AccessToken = ''stale''\<rparr>"]
  by (simp add: memManager_def memStorage_def constRetriever_def startWorld_def
      StandardAuthManager_Renew_def callLoad_def callRetrieve_def callSave_def
      exchangeRefreshTokenForAccessTokenAndStore_def)


section \<open>The entry model of the contacts package\<close>

text \<open>
  The struct types of the client file, with the fields in the order of their
  declaration. Fields of different structs that share a name are told apart by
  the struct's name (\<open>Email.Rel\<close>, \<open>Website.Rel\<close>). A \<open>time.Time\<close> is used by
  the program through its \<open>MarshalText\<close> method only, so it is modelled by the answer
  of that method: the text, or the error it reports for a time that has no
  RFC 3339 form.
\<close>

record Time =
  MarshalText :: "error + string"

record xmlName =
  Space :: string
  Local :: string

record GivenName =
  Phonetic :: string
  Value :: string

record FamilyName =
  Phonetic :: string
  Value :: string

record Name =
  FullName :: string
  NamePrefix :: string
  GivenName :: GivenName
  AdditionalName :: string
  FamilyName :: FamilyName
  NameSuffix :: string

record Email =
  Address :: string
  Primary :: bool
  Label :: string
  Rel :: string

record When =
  StartTime :: string

record Event =
  When :: When
  Label :: string
  Rel :: string

record Birthday =
  When :: string

record Relation =
  Rel :: string
  Value :: string

record UserDefinedField =
  Key :: string
  Value :: string

record Website =
  Rel :: string
  Label :: string
  Href :: string

record PhoneNumber =
  Label :: string
  Rel :: string
  Uri :: string
  Value :: string

record StructuredPostalAddress =
  Rel :: string
  Primary :: bool
  Label :: string
  City :: string
  Street :: string
  Region :: string
  Postcode :: string
  Country :: string
  FormattedAddress :: string

record InstantMessenger =
  Address :: string
  Protocol :: string
  Rel :: string

record ExtendedProperty =
  Name :: string
  Value :: string

record GroupMembershipInfo =
  Deleted :: bool
  Href :: string

record Link =
  Rel :: string
  Type :: string
  Href :: string

record Organization =
  Rel :: string
  OrgName :: string
  OrgTitle :: string

record Entry =
  XMLName :: xmlName
  ETag :: string
  Id :: string
  Updated :: Time
  Title :: string
  Content :: string
  Links :: "Link list"
  Name :: Name
  InstantMessengers :: "InstantMessenger list"
  Organization :: Organization
  Emails :: "Email list"
  PhoneNumbers :: "PhoneNumber list"
  StructuredPostalAddresses :: "StructuredPostalAddress list"
  ExtendedProperties :: "ExtendedProperty list"
  Birthday :: Birthday
  Nickname :: string
  FileAs :: string
  Events :: "Event list"
  Relations :: "Relation list"
  UserDefinedFields :: "UserDefinedField list"
  Websites :: "Website list"
  GroupMembershipInfo :: "GroupMembershipInfo list"

text \<open>
  A Go function that can panic returns \<open>Panic\<close> or \<open>Returns v\<close>.
\<close>

datatype 'a go = Panic | Returns 'a

subsection \<open>\<open>GetURI\<close>, \<open>GetEtag\<close>, \<open>GetId\<close>\<close>

definition GetURI :: "Entry \<Rightarrow> string" where
  "GetURI e = Id e"

definition GetEtag :: "Entry \<Rightarrow> string" where
  "GetEtag e = ETag e"

text \<open>
  \<open>strings.LastIndex s substr\<close>: the index of the last instance of \<open>substr\<close> in
  \<open>s\<close>, or \<open>-1\<close>. \<open>lastIndexFrom s substr k\<close> tries the start positions
  \<open>k - 1\<close> down to \<open>0\<close>.
\<close>

fun lastIndexFrom :: "string \<Rightarrow> string \<Rightarrow> nat \<Rightarrow> int" where
  "lastIndexFrom s substr 0 = - 1"
| "lastIndexFrom s substr (Suc i) =
     (if take (length substr) (drop i s) = substr then int i else lastIndexFrom s substr i)"

definition LastIndex :: "string \<Rightarrow> string \<Rightarrow> int" where
  "LastIndex s substr = lastIndexFrom s substr (Suc (length s) - length substr)"

text \<open>
  The slice expression \<open>s[lo:hi]\<close> of a string: it panics unless
  \<open>0 \<le> lo \<le> hi \<le> len(s)\<close>.
\<close>

definition slice :: "string \<Rightarrow> int \<Rightarrow> int \<Rightarrow> string go" where
  "slice s lo hi =
     (if 0 \<le> lo \<and> lo \<le> hi \<and> hi \<le> int (length s)
      then Returns (take (nat hi - nat lo) (drop (nat lo) s))
      else Panic)"

definition GetId :: "Entry \<Rightarrow> string go" where
  "GetId e =
     (let pos = LastIndex (Id e) ''/''
      in slice (Id e) (pos + 1) (int (length (Id e))))"



text \<open>The zero value of \<open>Entry\<close>; the zero \<open>time.Time\<close> is year 1.\<close>

definition emptyName :: Name where
  "emptyName = \<lparr>FullName = [], NamePrefix = [],
     GivenName = \<lparr>GivenName.Phonetic = [], GivenName.Value = []\<rparr>, AdditionalName = [],
     FamilyName = \<lparr>FamilyName.Phonetic = [], FamilyName.Value = []\<rparr>, NameSuffix = []\<rparr>"

definition emptyEntry :: Entry where
  "emptyEntry = \<lparr>XMLName = \<lparr>Space = [], Local = []\<rparr>, ETag = [], Id = [],
     Updated = \<lparr>MarshalText = Inr ''0001-01-01T00:00:00Z''\<rparr>, Title = [], Content = [],
     Links = [], Name = emptyName, InstantMessengers = [],
     Organization = \<lparr>Organization.Rel = [], OrgName = [], OrgTitle = []\<rparr>,
     Emails = [], PhoneNumbers = [], StructuredPostalAddresses = [], ExtendedProperties = [],
     Birthday = \<lparr>Birthday.When = []\<rparr>, Nickname = [], FileAs = [], Events = [],
     Relations = [], UserDefinedFields = [], Websites = [], GroupMembershipInfo = []\<rparr>"

subsection \<open>The local identifier\<close>

lemma take1_eq: "take (Suc 0) xs = [c] \<Longrightarrow> c \<in> set xs"
  by (cases xs) auto

lemma lastIndexFrom_none:
  "(\<And>i. i < k \<Longrightarrow> take (Suc 0) (drop i s) \<noteq> [c]) \<Longrightarrow> lastIndexFrom s [c] k = - 1"
  by (induction k) auto

lemma lastIndexFrom_some:
  "i < k \<Longrightarrow> take (Suc 0) (drop i s) = [c] \<Longrightarrow>
   (\<And>j. i < j \<Longrightarrow> j < k \<Longrightarrow> take (Suc 0) (drop j s) \<noteq> [c]) \<Longrightarrow>
   lastIndexFrom s [c] k = int i"
proof (induction k)
  case 0
  then show ?case by simp
next
  case (Suc k)
  show ?case
  proof (cases "i = k")
    case True
    with Suc.prems show ?thesis by simp
  next
    case False
    with Suc.prems have "i < k" by simp
    moreover have "take (Suc 0) (drop k s) \<noteq> [c]"
      using Suc.prems(3) [of k] \<open>i < k\<close> by simp
    ultimately show ?thesis
      using Suc.IH Suc.prems by simp
  qed
qed

lemma LastIndex_absent: "c \<notin> set s \<Longrightarrow> LastIndex s [c] = - 1"
  unfolding LastIndex_def
  by (rule lastIndexFrom_none) (metis take1_eq in_set_dropD)

lemma LastIndex_last:
  assumes "c \<notin> set r"
  shows "LastIndex (p @ c # r) [c] = int (length p)"
  unfolding LastIndex_def
proof (rule lastIndexFrom_some)
  show "length p < Suc (length (p @ c # r)) - length [c]" by simp
  show "take (Suc 0) (drop (length p) (p @ c # r)) = [c]" by simp
  fix j assume "length p < j"
  then have "drop j (p @ c # r) = drop (j - Suc (length p)) r"
    by (simp add: drop_Cons')
  then show "take (Suc 0) (drop j (p @ c # r)) \<noteq> [c]"
    using assms by (metis take1_eq in_set_dropD)
qed

text \<open>
  C10. \<open>GetId\<close> never panics. For an \<open>Id\<close> without \<open>/\<close> it returns the whole
  \<open>Id\<close>; otherwise it returns what follows the last \<open>/\<close>. In particular an \<open>Id\<close>
  that ends in \<open>/contacts/default/full/abc123\<close> gives \<open>abc123\<close>.
\<close>

theorem GetId_suffix:
  "(CHR ''/'' \<notin> set (Id e) \<longrightarrow> GetId e = Returns (Id e))
   \<and> (\<forall>p r. Id e = p @ ''/'' @ r \<and> CHR ''/'' \<notin> set r \<longrightarrow> GetId e = Returns r)
   \<and> (\<forall>p. Id e = p @ ''/contacts/default/full/abc123'' \<longrightarrow> GetId e = Returns ''abc123'')
   \<and> GetId e \<noteq> Panic"
proof -
  have a: "GetId e = Returns (Id e)" if "CHR ''/'' \<notin> set (Id e)"
    using that by (simp add: GetId_def slice_def LastIndex_absent)
  have b: "GetId e = Returns r" if "Id e = p @ ''/'' @ r" "CHR ''/'' \<notin> set r" for p r
    using that LastIndex_last [of "CHR ''/''" r p]
    by (simp add: GetId_def slice_def nat_add_distrib)
  have c: "GetId e = Returns ''abc123''" if "Id e = p @ ''/contacts/default/full/abc123''" for p
    using b [of "p @ ''/contacts/default/full''" "''abc123''"] that by simp
  have d: "GetId e \<noteq> Panic"
  proof (cases "CHR ''/'' \<in> set (Id e)")
    case True
    then obtain p r where "Id e = p @ CHR ''/'' # r" "CHR ''/'' \<notin> set r"
      by (meson split_list_last)
    then show ?thesis using b [of p r] by simp
  next
    case False
    then show ?thesis using a by simp
  qed
  from a b c d show ?thesis by blast
qed

theorem GetId_suffix_witness:
  "GetId (emptyEntry\<lparr>Id := ''https://www.google.com/m8/feeds/contacts/default/full/abc123''\<rparr>)
     = Returns ''abc123''
   \<and> GetId (emptyEntry\<lparr>Id := ''abc123''\<rparr>) = Returns ''abc123''"
  using GetId_suffix [of "emptyEntry\<lparr>Id := ''https://www.google.com/m8/feeds/contacts/default/full/abc123''\<rparr>"]
    GetId_suffix [of "emptyEntry\<lparr>Id := ''abc123''\<rparr>"]
  by (simp add: emptyEntry_def)



section \<open>The encoder: \<open>xml.MarshalIndent\<close> on an entry, then \<open>fixXml\<close>\<close>

subsection \<open>Escaping of text (\<open>encoding/xml\<close>, \<open>unicode/utf8\<close>)\<close>

text \<open>
  A Go string is a sequence of bytes, here a list of \<open>char\<close>. The XML printer reads
  it rune by rune: \<open>decodeRune\<close> is \<open>utf8.DecodeRuneInString\<close>, which returns the
  rune and its width in bytes, and \<open>(RuneError, 1)\<close> on a byte sequence that is not
  UTF-8.
\<close>

definition RuneError :: nat where
  "RuneError = 0xFFFD"

definition inRange :: "nat \<Rightarrow> nat \<Rightarrow> char \<Rightarrow> bool" where
  "inRange lo hi c = (lo \<le> of_char c \<and> of_char c \<le> hi)"

fun decodeRune :: "string \<Rightarrow> nat \<times> nat" where
  "decodeRune [] = (RuneError, 0)"
| "decodeRune (c0 # cs) =
     (let b0 = (of_char c0 :: nat) in
      if b0 < 0x80 then (b0, 1)
      else if b0 < 0xC2 then (RuneError, 1)
      else if b0 < 0xE0 then
        (case cs of
           c1 # _ \<Rightarrow>
             if inRange 0x80 0xBF c1 then ((b0 mod 32) * 64 + of_char c1 mod 64, 2)
             else (RuneError, 1)
         | _ \<Rightarrow> (RuneError, 1))
      else if b0 < 0xF0 then
        (case cs of
           c1 # c2 # _ \<Rightarrow>
             if inRange (if b0 = 0xE0 then 0xA0 else 0x80) (if b0 = 0xED then 0x9F else 0xBF) c1
                \<and> inRange 0x80 0xBF c2
             then ((b0 mod 16) * 4096 + (of_char c1 mod 64) * 64 + of_char c2 mod 64, 3)
             else (RuneError, 1)
         | _ \<Rightarrow> (RuneError, 1))
      else if b0 < 0xF5 then
        (case cs of
           c1 # c2 # c3 # _ \<Rightarrow>
             if inRange (if b0 = 0xF0 then 0x90 else 0x80) (if b0 = 0xF4 then 0x8F else 0xBF) c1
                \<and> inRange 0x80 0xBF c2 \<and> inRange 0x80 0xBF c3
             then ((b0 mod 8) * 262144 + (of_char c1 mod 64) * 4096
                   + (of_char c2 mod 64) * 64 + of_char c3 mod 64, 4)
             else (RuneError, 1)
         | _ \<Rightarrow> (RuneError, 1))
      else (RuneError, 1))"

text \<open>\<open>isInCharacterRange\<close>: the runes XML 1.0 allows.\<close>

definition isInCharacterRange :: "nat \<Rightarrow> bool" where
  "isInCharacterRange r =
     (r = 0x09 \<or> r = 0x0A \<or> r = 0x0D \<or> (0x20 \<le> r \<and> r \<le> 0xD7FF)
      \<or> (0xE000 \<le> r \<and> r \<le> 0xFFFD) \<or> (0x10000 \<le> r \<and> r \<le> 0x10FFFF))"

text \<open>
  The replacement the printer writes for a rune, if any: the five markup
  characters, tab, newline and carriage return become references, and a rune
  outside XML's range or an undecodable byte becomes U+FFFD.
\<close>

definition escapeOf :: "nat \<Rightarrow> nat \<Rightarrow> string option" where
  "escapeOf r width =
     (if r = 0x22 then Some ''&#34;''
      else if r = 0x27 then Some ''&#39;''
      else if r = 0x26 then Some ''&amp;''
      else if r = 0x3C then Some ''&lt;''
      else if r = 0x3E then Some ''&gt;''
      else if r = 0x09 then Some ''&#x9;''
      else if r = 0x0A then Some ''&#xA;''
      else if r = 0x0D then Some ''&#xD;''
      else if \<not> isInCharacterRange r \<or> (r = RuneError \<and> width = 1)
        then Some [CHR 0xEF, CHR 0xBF, CHR 0xBD]
      else None)"

fun EscapeString :: "string \<Rightarrow> string" where
  "EscapeString [] = []"
| "EscapeString (c # cs) =
     (case decodeRune (c # cs) of
        (r, width) \<Rightarrow>
          (case escapeOf r width of Some esc \<Rightarrow> esc | None \<Rightarrow> take width (c # cs))
          @ EscapeString (drop (width - 1) cs))"

subsection \<open>The printer of \<open>MarshalIndent(v, "", "  ")\<close>\<close>

text \<open>
  The marshaller walks the value and calls \<open>writeStart\<close>, \<open>EscapeString\<close> /
  \<open>EscapeText\<close> and \<open>writeEnd\<close> on the printer. The walk is modelled as the list of
  these calls (tokens), the printer as the function that writes them with the
  indentation state of \<open>printer.writeIndent\<close>. No element of the entry has a
  namespace, so a start tag is \<open><name\<close>, the attributes as \<open> name="value"\<close> with the
  value escaped, and \<open>>\<close>.
\<close>

datatype token =
    StartElement string "(string \<times> string) list"
  | CharData string
  | EndElement string

record printer =
  depth :: int
  indentedIn :: bool
  putNewline :: bool

definition writeIndent :: "int \<Rightarrow> printer \<Rightarrow> string \<times> printer" where
  "writeIndent depthDelta p =
     (let p1 = (if depthDelta < 0 then p\<lparr>depth := depth p - 1\<rparr> else p) in
      if depthDelta < 0 \<and> indentedIn p1 then ([], p1\<lparr>indentedIn := False\<rparr>)
      else
        (let p2 = (if depthDelta < 0 then p1\<lparr>indentedIn := False\<rparr> else p1);
             nl = (if putNewline p2 then [CHR 0x0A] else []);
             ind = concat (replicate (nat (depth p2)) ''  '');
             p3 = p2\<lparr>putNewline := True\<rparr>
         in (nl @ ind,
             if depthDelta > 0 then p3\<lparr>depth := depth p3 + 1, indentedIn := True\<rparr> else p3)))"

definition writeAttr :: "string \<times> string \<Rightarrow> string" where
  "writeAttr a = '' '' @ fst a @ [CHR ''='', CHR 0x22] @ EscapeString (snd a) @ [CHR 0x22]"

fun printTokens :: "printer \<Rightarrow> token list \<Rightarrow> string" where
  "printTokens p [] = []"
| "printTokens p (StartElement name attrs # ts) =
     (case writeIndent 1 p of
        (ind, p') \<Rightarrow>
          ind @ ''<'' @ name @ concat (map writeAttr attrs) @ ''>'' @ printTokens p' ts)"
| "printTokens p (CharData s # ts) = EscapeString s @ printTokens p ts"
| "printTokens p (EndElement name # ts) =
     (case writeIndent (- 1) p of
        (ind, p') \<Rightarrow> ind @ ''</'' @ name @ ''>'' @ printTokens p' ts)"

definition newPrinter :: printer where
  "newPrinter = \<lparr>depth = 0, indentedIn = False, putNewline = False\<rparr>"

subsection \<open>The walk over the entry, field by field\<close>

text \<open>
  What the struct tags ask of the marshaller: a field tagged \<open>attr\<close> is an attribute
  of the start tag, in the order of the fields; \<open>omitempty\<close> drops an empty string
  and a false boolean, and has no effect on a field of struct type, which is never
  empty; \<open>chardata\<close> is written as the text of the element; a slice is written
  element by element under the field's name, with no enclosing tag.
\<close>

definition attr :: "string \<Rightarrow> string \<Rightarrow> (string \<times> string) list" where
  "attr name v = [(name, v)]"

definition attrOmitEmpty :: "string \<Rightarrow> string \<Rightarrow> (string \<times> string) list" where
  "attrOmitEmpty name v = (if v = [] then [] else [(name, v)])"

definition FormatBool :: "bool \<Rightarrow> string" where
  "FormatBool b = (if b then ''true'' else ''false'')"

definition attrBool :: "string \<Rightarrow> bool \<Rightarrow> (string \<times> string) list" where
  "attrBool name b = [(name, FormatBool b)]"

definition attrBoolOmitEmpty :: "string \<Rightarrow> bool \<Rightarrow> (string \<times> string) list" where
  "attrBoolOmitEmpty name b = (if b then [(name, FormatBool b)] else [])"

definition element :: "string \<Rightarrow> string \<Rightarrow> token list" where
  "element name v = [StartElement name [], CharData v, EndElement name]"

definition elementOmitEmpty :: "string \<Rightarrow> string \<Rightarrow> token list" where
  "elementOmitEmpty name v = (if v = [] then [] else element name v)"

definition marshalGivenName :: "GivenName \<Rightarrow> token list" where
  "marshalGivenName g =
     [StartElement ''givenName'' (attrOmitEmpty ''yomi'' (GivenName.Phonetic g)),
      CharData (GivenName.Value g), EndElement ''givenName'']"

definition marshalFamilyName :: "FamilyName \<Rightarrow> token list" where
  "marshalFamilyName g =
     [StartElement ''familyName'' (attrOmitEmpty ''yomi'' (FamilyName.Phonetic g)),
      CharData (FamilyName.Value g), EndElement ''familyName'']"

definition marshalName :: "Name \<Rightarrow> token list" where
  "marshalName n =
     [StartElement ''name'' []]
     @ elementOmitEmpty ''fullName'' (FullName n)
     @ elementOmitEmpty ''namePrefix'' (NamePrefix n)
     @ marshalGivenName (Name.GivenName n)
     @ elementOmitEmpty ''additionalName'' (AdditionalName n)
     @ marshalFamilyName (Name.FamilyName n)
     @ elementOmitEmpty ''nameSuffix'' (NameSuffix n)
     @ [EndElement ''name'']"

definition marshalLink :: "Link \<Rightarrow> token list" where
  "marshalLink l =
     [StartElement ''link''
        (attrOmitEmpty ''rel'' (Link.Rel l) @ attr ''type'' (Link.Type l)
         @ attr ''href'' (Link.Href l)),
      EndElement ''link'']"

definition marshalInstantMessenger :: "InstantMessenger \<Rightarrow> token list" where
  "marshalInstantMessenger i =
     [StartElement ''im''
        (attr ''address'' (InstantMessenger.Address i)
         @ attr ''protocol'' (InstantMessenger.Protocol i)
         @ attr ''rel'' (InstantMessenger.Rel i)),
      EndElement ''im'']"

definition marshalOrganization :: "Organization \<Rightarrow> token list" where
  "marshalOrganization g =
     [StartElement ''organization'' (attrOmitEmpty ''rel'' (Organization.Rel g))]
     @ elementOmitEmpty ''orgName'' (OrgName g)
     @ elementOmitEmpty ''orgTitle'' (OrgTitle g)
     @ [EndElement ''organization'']"

definition marshalEmail :: "Email \<Rightarrow> token list" where
  "marshalEmail m =
     [StartElement ''email''
        (attr ''address'' (Email.Address m)
         @ attrBoolOmitEmpty ''primary'' (Email.Primary m)
         @ attrOmitEmpty ''label'' (Email.Label m)
         @ attrOmitEmpty ''rel'' (Email.Rel m)),
      EndElement ''email'']"

definition marshalPhoneNumber :: "PhoneNumber \<Rightarrow> token list" where
  "marshalPhoneNumber n =
     [StartElement ''phoneNumber''
        (attrOmitEmpty ''label'' (PhoneNumber.Label n)
         @ attrOmitEmpty ''rel'' (PhoneNumber.Rel n)
         @ attrOmitEmpty ''uri'' (PhoneNumber.Uri n)),
      CharData (PhoneNumber.Value n), EndElement ''phoneNumber'']"

definition marshalStructuredPostalAddress :: "StructuredPostalAddress \<Rightarrow> token list" where
  "marshalStructuredPostalAddress a =
     [StartElement ''structuredPostalAddress''
        (attrOmitEmpty ''rel'' (StructuredPostalAddress.Rel a)
         @ attrBoolOmitEmpty ''primary'' (StructuredPostalAddress.Primary a)
         @ attrOmitEmpty ''label'' (StructuredPostalAddress.Label a))]
     @ elementOmitEmpty ''city'' (City a)
     @ elementOmitEmpty ''street'' (Street a)
     @ elementOmitEmpty ''region'' (Region a)
     @ elementOmitEmpty ''postcode'' (Postcode a)
     @ elementOmitEmpty ''country'' (Country a)
     @ elementOmitEmpty ''formattedAddress'' (FormattedAddress a)
     @ [EndElement ''structuredPostalAddress'']"

definition marshalExtendedProperty :: "ExtendedProperty \<Rightarrow> token list" where
  "marshalExtendedProperty x =
     [StartElement ''extendedProperty''
        (attr ''name'' (ExtendedProperty.Name x) @ attr ''value'' (ExtendedProperty.Value x)),
      EndElement ''extendedProperty'']"

definition marshalBirthday :: "Birthday \<Rightarrow> token list" where
  "marshalBirthday b =
     [StartElement ''birthday'' (attrOmitEmpty ''when'' (Birthday.When b)),
      EndElement ''birthday'']"

definition marshalWhen :: "When \<Rightarrow> token list" where
  "marshalWhen w = [StartElement ''when'' (attr ''startTime'' (StartTime w)), EndElement ''when'']"

definition marshalEvent :: "Event \<Rightarrow> token list" where
  "marshalEvent v =
     [StartElement ''event''
        (attrOmitEmpty ''label'' (Event.Label v) @ attrOmitEmpty ''rel'' (Event.Rel v))]
     @ marshalWhen (Event.When v)
     @ [EndElement ''event'']"

definition marshalRelation :: "Relation \<Rightarrow> token list" where
  "marshalRelation r =
     [StartElement ''relation'' (attr ''rel'' (Relation.Rel r)),
      CharData (Relation.Value r), EndElement ''relation'']"

definition marshalUserDefinedField :: "UserDefinedField \<Rightarrow> token list" where
  "marshalUserDefinedField u =
     [StartElement ''userDefinedField''
        (attr ''key'' (Key u) @ attr ''value'' (UserDefinedField.Value u)),
      EndElement ''userDefinedField'']"

definition marshalWebsite :: "Website \<Rightarrow> token list" where
  "marshalWebsite s =
     [StartElement ''website''
        (attrOmitEmpty ''rel'' (Website.Rel s) @ attrOmitEmpty ''label'' (Website.Label s)
         @ attr ''href'' (Website.Href s)),
      EndElement ''website'']"

definition marshalGroupMembershipInfo :: "GroupMembershipInfo \<Rightarrow> token list" where
  "marshalGroupMembershipInfo g =
     [StartElement ''groupMembershipInfo''
        (attrBool ''deleted'' (Deleted g) @ attr ''href'' (GroupMembershipInfo.Href g)),
      EndElement ''groupMembershipInfo'']"

text \<open>
  The fields of the entry after \<open>updated\<close>. \<open>Updated\<close> is a \<open>TextMarshaler\<close>: its start
  tag is written, then \<open>MarshalText\<close> is called, and its error ends the marshalling.
\<close>

definition marshalEntryRest :: "Entry \<Rightarrow> token list" where
  "marshalEntryRest e =
     element ''title'' (Title e)
     @ element ''content'' (Content e)
     @ concat (map marshalLink (Links e))
     @ marshalName (Entry.Name e)
     @ concat (map marshalInstantMessenger (InstantMessengers e))
     @ marshalOrganization (Entry.Organization e)
     @ concat (map marshalEmail (Emails e))
     @ concat (map marshalPhoneNumber (PhoneNumbers e))
     @ concat (map marshalStructuredPostalAddress (StructuredPostalAddresses e))
     @ concat (map marshalExtendedProperty (ExtendedProperties e))
     @ marshalBirthday (Entry.Birthday e)
     @ element ''nickname'' (Nickname e)
     @ element ''fileAs'' (FileAs e)
     @ concat (map marshalEvent (Events e))
     @ concat (map marshalRelation (Relations e))
     @ concat (map marshalUserDefinedField (UserDefinedFields e))
     @ concat (map marshalWebsite (Websites e))
     @ concat (map marshalGroupMembershipInfo (Entry.GroupMembershipInfo e))
     @ [EndElement ''entry'']"

definition marshalEntry :: "Entry \<Rightarrow> error + token list" where
  "marshalEntry e =
     (case MarshalText (Updated e) of
        Inl err \<Rightarrow> Inl err
      | Inr text \<Rightarrow>
          Inr ([StartElement ''entry'' (attr ''etag'' (ETag e))]
               @ element ''id'' (Id e)
               @ element ''updated'' text
               @ marshalEntryRest e))"

definition MarshalIndent :: "Entry \<Rightarrow> error + string" where
  "MarshalIndent e =
     (case marshalEntry e of
        Inl err \<Rightarrow> Inl err
      | Inr ts \<Rightarrow> Inr (printTokens newPrinter ts))"

subsection \<open>\<open>strings.NewReplacer(rules...).Replace\<close>\<close>

text \<open>
  The replacer goes through the text from left to right. At each position it
  takes, among the rules whose old string starts there, the one given first, writes
  its new string and skips the old one; where no rule applies it copies one byte.
  Every old string of this program is non-empty; a rule with an empty old string is
  never selected here.
\<close>

type_synonym rule = "string \<times> string"

fun lookup :: "rule list \<Rightarrow> string \<Rightarrow> rule option" where
  "lookup [] s = None"
| "lookup (r # rs) s = (if fst r \<noteq> [] \<and> prefix (fst r) s then Some r else lookup rs s)"

fun replaceFrom :: "rule list \<Rightarrow> nat \<Rightarrow> string \<Rightarrow> string" where
  "replaceFrom rs k [] = []"
| "replaceFrom rs (Suc k) (c # cs) = replaceFrom rs k cs"
| "replaceFrom rs 0 (c # cs) =
     (case lookup rs (c # cs) of
        Some r \<Rightarrow> snd r @ replaceFrom rs (length (fst r) - 1) cs
      | None \<Rightarrow> c # replaceFrom rs 0 cs)"

definition Replace :: "rule list \<Rightarrow> string \<Rightarrow> string" where
  "Replace rs s = replaceFrom rs 0 s"

subsection \<open>\<open>fixXml\<close>\<close>

definition gdTags :: "string list" where
  "gdTags =
     [''name'', ''fullName'', ''namePrefix'', ''givenName'', ''additionalName'',
      ''familyName'', ''nameSuffix'',
      ''extendedProperty'',
      ''organization'', ''orgName'', ''orgTitle'',
      ''email'', ''im'', ''phoneNumber'',
      ''structuredPostalAddress'', ''formattedAddress'', ''street'', ''pobox'',
      ''neighborhood'', ''city'', ''region'', ''postcode'', ''country'',
      ''when'']"

definition gContactTags :: "string list" where
  "gContactTags =
     [''groupMembershipInfo'', ''nickname'', ''birthday'', ''fileAs'', ''event'',
      ''relation'', ''userDefinedField'', ''website'', ''groupMembershipInfo'']"

definition tagRules :: "string \<Rightarrow> string \<Rightarrow> rule list" where
  "tagRules ns tag =
     [(''<'' @ tag @ '' '', ''<'' @ ns @ tag @ '' ''),
      (''<'' @ tag @ ''>'', ''<'' @ ns @ tag @ ''>''),
      (''</'' @ tag @ ''>'', ''</'' @ ns @ tag @ ''>'')]"

definition emptyRules :: "rule list" where
  "emptyRules = [(''<name></name>'', []), (''<organization></organization>'', [])]"

definition rules :: "rule list" where
  "rules = emptyRules @ concat (map (tagRules ''gd:'') gdTags)
           @ concat (map (tagRules ''gContact:'') gContactTags)"

definition fixXml :: "string \<Rightarrow> string" where
  "fixXml original = Replace rules original"

text \<open>The document \<open>saveContactRaw\<close> sends: the marshalled entry after \<open>fixXml\<close>.\<close>

definition encode :: "Entry \<Rightarrow> error + string" where
  "encode e = (case MarshalIndent e of Inl err \<Rightarrow> Inl err | Inr xmlBytes \<Rightarrow> Inr (fixXml xmlBytes))"

text \<open>
  The names of the tags of a document, in order: after each \<open><\<close>, and a \<open>/\<close> if
  there is one, the characters up to the first blank, \<open>/\<close>, \<open>>\<close> or \<open><\<close>.
\<close>

definition nameChar :: "char \<Rightarrow> bool" where
  "nameChar c = (c \<notin> set [CHR '' '', CHR ''>'', CHR ''/'', CHR ''<'', CHR 0x09, CHR 0x0A, CHR 0x0D])"

definition tagName :: "string \<Rightarrow> string" where
  "tagName cs = takeWhile nameChar (case cs of c # r \<Rightarrow> if c = CHR ''/'' then r else cs | [] \<Rightarrow> [])"

fun tagNames :: "string \<Rightarrow> string list" where
  "tagNames [] = []"
| "tagNames (c # cs) = (if c = CHR ''<'' then tagName cs # tagNames cs else tagNames cs)"

end
